theory Spec2Isabelle
  imports Complex_Main
begin

section \<open>The noise importer of NuRadioReco (noiseImporterUproot.py)\<close>

text \<open>
  The module reads recorded ARIANNA noise from ROOT files (method \<open>begin\<close>) and adds a
  randomly chosen noise event to every channel of a simulated station (method \<open>run\<close>).
  Samples are modelled as real numbers. The unit constant \<open>units.mV\<close> comes from
  \<open>NuRadioReco.utilities.units\<close>, which is not part of the sources at hand: every function
  that uses it takes it as the parameter \<open>mV\<close>.
\<close>

subsection \<open>Python errors and indexing\<close>

datatype py_error =
    IndexError | KeyError | ValueError | TypeError | NameError
  | AttributeError | ZeroDivisionError

text \<open>
  \<open>xs[i]\<close> for a sequence and a Python integer. An index from \<open>-len(xs)\<close> up to \<open>-1\<close>
  selects from the end of the sequence; an index outside \<open>-len(xs) .. len(xs) - 1\<close> raises.
\<close>

definition py_index :: "'a list \<Rightarrow> int \<Rightarrow> py_error + 'a" where
  "py_index xs i =
     (if 0 \<le> i \<and> i < int (length xs) then Inr (xs ! nat i)
      else if i < 0 \<and> - int (length xs) \<le> i then Inr (xs ! nat (int (length xs) + i))
      else Inl IndexError)"

subsection \<open>Arrays\<close>

text \<open>
  A three-dimensional numpy array (event, channel, sample). The two trailing dimensions
  are kept beside the rows, so that the shape of an array without events is known.
\<close>

record ndarray3 =
  nchan :: nat
  nsamp :: nat
  rows :: "real list list list"

definition wf_ndarray3 :: "ndarray3 \<Rightarrow> bool" where
  "wf_ndarray3 a =
     (\<forall>ev \<in> set (rows a). length ev = nchan a \<and> (\<forall>w \<in> set ev. length w = nsamp a))"

text \<open>\<open>np.shape(a)\<close>, and \<open>len(a)\<close>.\<close>

definition np_shape :: "ndarray3 \<Rightarrow> nat \<times> nat \<times> nat" where
  "np_shape a = (length (rows a), nchan a, nsamp a)"

definition np_len :: "ndarray3 \<Rightarrow> nat" where
  "np_len a = length (rows a)"

text \<open>\<open>a * c\<close> for an array and a scalar: every sample is multiplied.\<close>

definition scale_trace :: "real \<Rightarrow> real list \<Rightarrow> real list" where
  "scale_trace c w = map (\<lambda>x. x * c) w"

definition scale3 :: "real \<Rightarrow> ndarray3 \<Rightarrow> ndarray3" where
  "scale3 c a = a\<lparr>rows := map (map (scale_trace c)) (rows a)\<rparr>"

text \<open>\<open>a += b\<close> on two one-dimensional arrays of the same length.\<close>

definition add_trace :: "real list \<Rightarrow> real list \<Rightarrow> real list" where
  "add_trace a b = map2 (+) a b"

subsection \<open>The importer object and the simulated channels\<close>

text \<open>
  \<open>np.datetime64(n, 's')\<close> is a count of whole seconds since the epoch.
\<close>

datatype datetime64 = Seconds int

text \<open>
  The attributes that \<open>begin\<close> sets on \<open>self\<close>. An attribute that has not been assigned
  yet is \<open>None\<close>; reading it raises \<open>AttributeError\<close>. Interpolated values are
  \<open>real option\<close>, see \<open>interp1d\<close> below.
\<close>

record noiseImporter =
  self_data :: "ndarray3 option"
  self_posix_time :: "int list option"
  self_datetime :: "datetime64 list option"
  self_trigger :: "nat list option"
  self_temperature :: "real option list option"
  self_power :: "real option list option"
  self_station_id :: "int list option"
  self_dtms :: "real list option"
  self_run_number :: "int list option"
  self_nevts :: "nat option"

definition new_importer :: noiseImporter where
  "new_importer = \<lparr>self_data = None, self_posix_time = None, self_datetime = None,
     self_trigger = None, self_temperature = None, self_power = None,
     self_station_id = None, self_dtms = None, self_run_number = None,
     self_nevts = None\<rparr>"

text \<open>A channel of the simulated station: \<open>get_id\<close>, \<open>get_trace\<close>, \<open>get_sampling_rate\<close>.\<close>

record channel =
  get_id :: int
  get_trace :: "real list"
  get_sampling_rate :: real

definition set_trace :: "channel \<Rightarrow> real list \<Rightarrow> real \<Rightarrow> channel" where
  "set_trace ch tr rate = ch\<lparr>get_trace := tr, get_sampling_rate := rate\<rparr>"

text \<open>
  The logger of the module is \<open>logging.getLogger('noiseImporter')\<close> of the standard
  library. \<open>warnings_on\<close> says whether it is enabled for the level \<open>WARNING\<close>, as it is
  unless the logging has been configured otherwise. A call of \<open>logger.warning\<close> with a
  message alone hands a record to the handlers when the level is enabled. A call with
  keyword arguments of the caller's own (lines 181 to 183: \<open>ch_orig\<close>, \<open>n_chan\<close>,
  \<open>ch_new\<close>) raises \<open>TypeError\<close> when the level is enabled, because \<open>Logger._log\<close>
  takes no such keyword, and returns without a record when it is not. So the one record
  that \<open>run\<close> can leave is the mismatch warning of line 189, with the two sample counts.
\<close>

datatype log_record = Mismatch nat nat

definition logger_warning :: "bool \<Rightarrow> log_record \<Rightarrow> log_record list" where
  "logger_warning warnings_on r = (if warnings_on then [r] else [])"

definition logger_warning_kwargs :: "bool \<Rightarrow> py_error option" where
  "logger_warning_kwargs warnings_on = (if warnings_on then Some TypeError else None)"

subsection \<open>run\<close>

text \<open>
  \<open>random.randint(a, b)\<close> returns an integer \<open>N\<close> with \<open>a \<le> N \<le> b\<close>: both ends are
  included. The set holds what a call may return.
\<close>

definition randint :: "int \<Rightarrow> int \<Rightarrow> int set" where
  "randint a b = {a..b}"

text \<open>
  Lines 178 to 183: a channel id above \<open>nchans - 1\<close> is reduced modulo \<open>nchans\<close>, then the
  logger is called with keyword arguments. Python's \<open>%\<close> on integers raises on a zero
  divisor and otherwise agrees with \<open>mod\<close> on \<open>int\<close> (the result has the sign of the
  divisor).
\<close>

definition resolve_channel_id :: "bool \<Rightarrow> int \<Rightarrow> int \<Rightarrow> py_error + int" where
  "resolve_channel_id warnings_on channel_id nchans =
     (if channel_id > nchans - 1 then
        (if nchans = 0 then Inl ZeroDivisionError
         else (case logger_warning_kwargs warnings_on of
                 Some e \<Rightarrow> Inl e
               | None \<Rightarrow> Inr (channel_id mod nchans)))
      else Inr channel_id)"

text \<open>
  The body of the loop of \<open>run\<close> for one channel, lines 170 to 195, with \<open>noise_event\<close>
  the number that line 173 has drawn. The result is the records logged and either the
  exception raised or the channel as the body leaves it. \<open>inject\<close> is the \<open>else\<close>
  branch, lines 192 to 195.
\<close>

definition inject :: "ndarray3 \<Rightarrow> real \<Rightarrow> int \<Rightarrow> int \<Rightarrow> channel \<Rightarrow> py_error + channel" where
  "inject d mV noise_event channel_id ch =
     (case py_index (rows d) noise_event of
        Inl e \<Rightarrow> Inl e
      | Inr ev \<Rightarrow>
          (case py_index ev channel_id of
             Inl e \<Rightarrow> Inl e
           | Inr w \<Rightarrow>
               (let noise_trace = scale_trace mV w;
                    noise_trace = add_trace noise_trace (get_trace ch)
                in Inr (set_trace ch noise_trace (get_sampling_rate ch)))))"

definition run_channel ::
  "noiseImporter \<Rightarrow> real \<Rightarrow> bool \<Rightarrow> int \<Rightarrow> channel
     \<Rightarrow> log_record list \<times> (py_error + channel)" where
  "run_channel self mV warnings_on noise_event ch =
     (case self_nevts self of
        None \<Rightarrow> ([], Inl AttributeError)
      | Some nevts \<Rightarrow>
          (case self_data self of
             None \<Rightarrow> ([], Inl AttributeError)
           | Some d \<Rightarrow>
               (let nchans = int (fst (snd (np_shape d)))
                in (case resolve_channel_id warnings_on (get_id ch) nchans of
                      Inl e \<Rightarrow> ([], Inl e)
                    | Inr channel_id \<Rightarrow>
                        (let noise_samples = snd (snd (np_shape d));
                             trace = get_trace ch
                         in if noise_samples \<noteq> length trace then
                              (logger_warning warnings_on
                                 (Mismatch noise_samples (length trace)), Inr ch)
                            else ([], inject d mV noise_event channel_id ch))))))"

text \<open>
  The body with the draw of line 173, \<open>random.randint(0, self.nevts)\<close>: what the body
  can do to a channel, one outcome for each number that the call may return.
\<close>

definition run_draw ::
  "noiseImporter \<Rightarrow> real \<Rightarrow> bool \<Rightarrow> channel \<Rightarrow> (log_record list \<times> (py_error + channel)) set" where
  "run_draw self mV warnings_on ch =
     (case self_nevts self of
        None \<Rightarrow> {([], Inl AttributeError)}
      | Some nevts \<Rightarrow>
          (\<lambda>noise_event. run_channel self mV warnings_on noise_event ch)
            ` randint 0 (int nevts))"

text \<open>
  The loop over \<open>station.iter_channels()\<close>: the outcomes of \<open>run\<close>, each with the records
  logged, the channels as they are left and the exception raised, if any. An exception
  ends the loop: the channels before the failing one keep their new traces, the failing
  one and those after it are untouched.
\<close>

fun run ::
  "noiseImporter \<Rightarrow> real \<Rightarrow> bool \<Rightarrow> channel list
     \<Rightarrow> (log_record list \<times> channel list \<times> py_error option) set" where
  "run self mV warnings_on [] = {([], [], None)}"
| "run self mV warnings_on (ch # chs) =
     (\<Union>out \<in> run_draw self mV warnings_on ch.
        case snd out of
          Inl e \<Rightarrow> {(fst out, ch # chs, Some e)}
        | Inr ch' \<Rightarrow>
            (\<lambda>rest. (fst out @ fst rest, ch' # fst (snd rest), snd (snd rest)))
              ` run self mV warnings_on chs)"

subsection \<open>The noise files\<close>

text \<open>
  A file opened with uproot is a dictionary of trees, a tree a dictionary of branches.
  The trees the module asks for are the optional fields of \<open>noise_file\<close> (\<open>None\<close>: the
  file has no tree of that name, and the lookup raises \<open>KeyError\<close>). A tree that is
  there holds the branches the module reads by a fixed name; the voltage branches,
  whose name the module computes, are kept by name.
\<close>

record calib_tree =
  AmpOutData_fData :: ndarray3
  EventHeader_fTrgInfo :: "nat list list"
  EventHeader_fTime :: "int list list"
  EventMetadata_fRun :: "int list"
  EventMetadata_fStnId :: "int list"
  EventHeader_fDTms :: "real list"

record temperature_tree =
  Temperature_fTime :: "int list list"
  Temperature_fTemp :: "real list"

record voltage_tree =
  PowerReading_fTime :: "int list list"
  PowerReading_branches :: "(string \<times> real list) list"

record noise_file =
  CalibTree :: "calib_tree option"
  TemperatureTree :: "temperature_tree option"
  VoltageTree :: "voltage_tree option"

text \<open>The number of entries of the calibration tree is the number of its events.\<close>

definition num_entries :: "calib_tree \<Rightarrow> nat" where
  "num_entries nt = length (rows (AmpOutData_fData nt))"

text \<open>
  \<open>branch.array(entry_start=a, entry_stop=b)\<close>: the entries from \<open>a\<close> up to, not
  including, \<open>b\<close>.
\<close>

definition array_entries :: "ndarray3 \<Rightarrow> nat \<Rightarrow> nat \<Rightarrow> ndarray3" where
  "array_entries a entry_start entry_stop =
     a\<lparr>rows := take (entry_stop - entry_start) (drop entry_start (rows a))\<rparr>"

text \<open>\<open>np.arange(0, n, step)\<close>: the multiples of \<open>step\<close> below \<open>n\<close>.\<close>

definition np_arange :: "nat \<Rightarrow> nat \<Rightarrow> nat list" where
  "np_arange n step = map (\<lambda>k. k * step) [0..<(n + step - 1) div step]"

text \<open>
  \<open>np.array(jagged)[:,0]\<close>, the first column of a branch read as a jagged array. The
  conversion to a numpy array needs rows of one length; the column 0 needs that
  length to be positive.
\<close>

definition np_col0 :: "'a list list \<Rightarrow> py_error + 'a list" where
  "np_col0 xss =
     (case xss of
        [] \<Rightarrow> Inl IndexError
      | xs # _ \<Rightarrow>
          if \<exists>ys \<in> set xss. length ys \<noteq> length xs then Inl ValueError
          else if length xs = 0 then Inl IndexError
          else Inr (map hd xss))"

text \<open>\<open>jagged[:,0]\<close> on the jagged array itself: every row needs a first element.\<close>

definition ak_col0 :: "'a list list \<Rightarrow> py_error + 'a list" where
  "ak_col0 xss = (if \<exists>ys \<in> set xss. ys = [] then Inl IndexError else Inr (map hd xss))"

text \<open>
  \<open>np.concatenate\<close> of a list of arrays along the first axis. It refuses an empty
  list, and arrays whose other dimensions differ.
\<close>

definition np_concatenate :: "'a list list \<Rightarrow> py_error + 'a list" where
  "np_concatenate xss = (if xss = [] then Inl ValueError else Inr (concat xss))"

definition np_concatenate3 :: "ndarray3 list \<Rightarrow> py_error + ndarray3" where
  "np_concatenate3 as =
     (case as of
        [] \<Rightarrow> Inl ValueError
      | a # _ \<Rightarrow>
          if \<exists>b \<in> set as. nchan b \<noteq> nchan a \<or> nsamp b \<noteq> nsamp a then Inl ValueError
          else Inr \<lparr>nchan = nchan a, nsamp = nsamp a, rows = concat (map rows as)\<rparr>)"

subsection \<open>Interpolation\<close>

text \<open>
  Modelled from the spec: the interval interpolator. The module calls
  \<open>scipy.interpolate.interp1d(time, data, bounds_error=False, fill_value=(data[0], data[-1]))\<close>
  and the interpolator is not part of the sources at hand. After section 4.1: one value
  for each query time, by piecewise-linear interpolation between the bracketing samples;
  a query outside the sample range gets the boundary value handed over as \<open>fill_value\<close>;
  fewer than two samples are an error. The samples are put in order of time first. The
  bracket of a query \<open>q\<close> inside the range ends at the first sample whose time is not
  below \<open>q\<close> (at the second sample, when that is the first one). A bracket of two
  samples with one and the same time has no slope: the value there is \<open>None\<close>.
\<close>

definition searchsorted :: "real list \<Rightarrow> real \<Rightarrow> nat" where
  "searchsorted xs q = length (takeWhile (\<lambda>x. x < q) xs)"

definition linear_at :: "(real \<times> real) list \<Rightarrow> real \<Rightarrow> real option" where
  "linear_at ps q =
     (let hi = max 1 (min (searchsorted (map fst ps) q) (length ps - 1));
          lo = hi - 1;
          x_lo = fst (ps ! lo); x_hi = fst (ps ! hi);
          y_lo = snd (ps ! lo); y_hi = snd (ps ! hi)
      in if x_hi = x_lo then None
         else Some ((y_hi - y_lo) / (x_hi - x_lo) * (q - x_lo) + y_lo))"

definition interp_eval :: "(real \<times> real) list \<Rightarrow> real \<times> real \<Rightarrow> real \<Rightarrow> real option" where
  "interp_eval ps fill_value q =
     (if q < fst (hd ps) then Some (fst fill_value)
      else if q > fst (last ps) then Some (snd fill_value)
      else linear_at ps q)"

definition interp1d ::
  "real list \<Rightarrow> real list \<Rightarrow> real \<times> real \<Rightarrow> py_error + (real \<Rightarrow> real option)" where
  "interp1d x y fill_value =
     (if length x \<noteq> length y then Inl ValueError
      else if length x < 2 then Inl ValueError
      else Inr (interp_eval (sort_key fst (zip x y)) fill_value))"

text \<open>
  Lines 140 and 141 (and 162 to 164): the interpolator of a series, with the first and
  the last value of \<open>data\<close> as they stand in the file for the two sides, at the times
  asked for. \<open>data[0]\<close> raises on an empty series.
\<close>

definition interpolate_series ::
  "int list \<Rightarrow> real list \<Rightarrow> int list \<Rightarrow> py_error + real option list" where
  "interpolate_series time data interpolation_times =
     (case py_index data 0 of
        Inl e \<Rightarrow> Inl e
      | Inr d0 \<Rightarrow>
          (case py_index data (- 1) of
             Inl e \<Rightarrow> Inl e
           | Inr d1 \<Rightarrow>
               (case interp1d (map real_of_int time) data (d0, d1) of
                  Inl e \<Rightarrow> Inl e
                | Inr interpolator \<Rightarrow>
                    Inr (map (\<lambda>t. interpolator (real_of_int t)) interpolation_times))))"

text \<open>
  What the two curve readers return: the series as read, or the times asked for with
  the interpolated values.
\<close>

datatype curve =
    Plain "int list" "real list"
  | Interpolated "int list" "real option list"

fun curve_values :: "curve \<Rightarrow> real option list" where
  "curve_values (Plain t d) = map Some d"
| "curve_values (Interpolated t v) = v"

definition read_temperature_curve :: "noise_file \<Rightarrow> int list option \<Rightarrow> py_error + curve" where
  "read_temperature_curve nf interpolation_times =
     (case TemperatureTree nf of
        None \<Rightarrow> Inl KeyError
      | Some nt \<Rightarrow>
          (case ak_col0 (Temperature_fTime nt) of
             Inl e \<Rightarrow> Inl e
           | Inr time \<Rightarrow>
               (let data = Temperature_fTemp nt
                in (case interpolation_times of
                      None \<Rightarrow> Inr (Plain time data)
                    | Some ts \<Rightarrow>
                        (case interpolate_series time data ts of
                           Inl e \<Rightarrow> Inl e
                         | Inr vs \<Rightarrow> Inr (Interpolated ts vs))))))"

text \<open>
  The second parameter of \<open>_read_power_curve\<close> is \<open>val\<close>, the suffix of the branch name,
  with the default \<open>"V1"\<close>; the third is \<open>interpolation_times\<close>, with the default
  \<open>None\<close>. A caller can hand over any Python value for \<open>val\<close>: a string, or an array of
  integers. A string plus an array of integers raises \<open>TypeError\<close>.
\<close>

datatype py_arg = Str string | IntArray "int list"

definition str_plus :: "string \<Rightarrow> py_arg \<Rightarrow> py_error + string" where
  "str_plus s v = (case v of Str t \<Rightarrow> Inr (s @ t) | IntArray a \<Rightarrow> Inl TypeError)"

definition read_power_curve ::
  "real \<Rightarrow> noise_file \<Rightarrow> py_arg \<Rightarrow> int list option \<Rightarrow> py_error + curve" where
  "read_power_curve mV nf val interpolation_times =
     (case VoltageTree nf of
        None \<Rightarrow> Inl KeyError
      | Some nt \<Rightarrow>
          (case ak_col0 (PowerReading_fTime nt) of
             Inl e \<Rightarrow> Inl e
           | Inr time \<Rightarrow>
               (case str_plus ''PowerReading./PowerReading.fave'' val of
                  Inl e \<Rightarrow> Inl e
                | Inr name \<Rightarrow>
                    (case map_of (PowerReading_branches nt) name of
                       None \<Rightarrow> Inl KeyError
                     | Some raw \<Rightarrow>
                         (let data = scale_trace mV raw
                          in (case interpolation_times of
                                None \<Rightarrow> Inr (Plain time data)
                              | Some ts \<Rightarrow>
                                  (case interpolate_series time data ts of
                                     Inl e \<Rightarrow> Inl e
                                   | Inr vs \<Rightarrow> Inr (Interpolated ts vs))))))))"

subsection \<open>begin\<close>

text \<open>The lists that \<open>begin\<close> fills while it loops over the files.\<close>

record accumulators =
  acc_data :: "ndarray3 list"
  acc_trigger :: "nat list list"
  acc_posix_times :: "int list list"
  acc_run :: "int list list"
  acc_station_id :: "int list list"
  acc_temperature :: "real option list list"
  acc_power_voltage :: "real option list list"
  acc_dtms :: "real list list"

definition empty_accumulators :: accumulators where
  "empty_accumulators = \<lparr>acc_data = [], acc_trigger = [], acc_posix_times = [],
     acc_run = [], acc_station_id = [], acc_temperature = [], acc_power_voltage = [],
     acc_dtms = []\<rparr>"

text \<open>
  Lines 77 to 86, the arrays appended to \<open>data\<close> for one file. \<open>read_full\<close> is the
  branch for fewer than 1000 entries, \<open>read_bunches\<close> the other one.
\<close>

definition read_full :: "calib_tree \<Rightarrow> ndarray3 list" where
  "read_full nt = [AmpOutData_fData nt]"

definition read_bunches :: "real \<Rightarrow> calib_tree \<Rightarrow> ndarray3 list" where
  "read_bunches mV nt =
     (let bunches = np_arange (num_entries nt) 1000 @ [num_entries nt];
          first = butlast bunches;
          last = tl bunches
      in map (\<lambda>i. scale3 mV (array_entries (AmpOutData_fData nt) (first ! i) (last ! i)))
           [0..<length first])"

definition read_data :: "real \<Rightarrow> calib_tree \<Rightarrow> ndarray3 list" where
  "read_data mV nt = (if num_entries nt < 1000 then read_full nt else read_bunches mV nt)"

text \<open>
  Lines 73 to 108, the body of the loop for one file. The call in line 107 hands the event
  times over as the second argument of \<open>_read_power_curve\<close>, which is \<open>val\<close>.
\<close>

definition begin_power ::
  "real \<Rightarrow> bool \<Rightarrow> noise_file \<Rightarrow> int list \<Rightarrow> accumulators \<Rightarrow> py_error + accumulators" where
  "begin_power mV read_power nf event_times_file acc =
     (if read_power then
        (case read_power_curve mV nf (IntArray event_times_file) None of
           Inl e \<Rightarrow> Inl e
         | Inr c \<Rightarrow>
             Inr (acc\<lparr>acc_power_voltage := acc_power_voltage acc @ [curve_values c]\<rparr>))
      else Inr acc)"

definition begin_temperature ::
  "bool \<Rightarrow> noise_file \<Rightarrow> int list \<Rightarrow> accumulators \<Rightarrow> py_error + accumulators" where
  "begin_temperature read_temperatures nf event_times_file acc =
     (if read_temperatures then
        (case read_temperature_curve nf (Some event_times_file) of
           Inl e \<Rightarrow> Inl e
         | Inr c \<Rightarrow>
             Inr (acc\<lparr>acc_temperature := acc_temperature acc @ [curve_values c]\<rparr>))
      else Inr acc)"

definition begin_file ::
  "real \<Rightarrow> bool \<Rightarrow> bool \<Rightarrow> accumulators \<Rightarrow> noise_file \<Rightarrow> py_error + accumulators" where
  "begin_file mV read_temperatures read_power acc nf =
     (case CalibTree nf of
        None \<Rightarrow> Inl KeyError
      | Some nt \<Rightarrow>
          (let acc = acc\<lparr>acc_data := acc_data acc @ read_data mV nt\<rparr>
           in (case np_col0 (EventHeader_fTrgInfo nt) of
                 Inl e \<Rightarrow> Inl e
               | Inr trg \<Rightarrow>
                   (let acc = acc\<lparr>acc_trigger := acc_trigger acc @ [trg]\<rparr>
                    in (case np_col0 (EventHeader_fTime nt) of
                          Inl e \<Rightarrow> Inl e
                        | Inr event_times_file \<Rightarrow>
                            (let acc = acc\<lparr>acc_posix_times :=
                                          acc_posix_times acc @ [event_times_file]\<rparr>
                             in (case begin_temperature read_temperatures nf
                                        event_times_file acc of
                                   Inl e \<Rightarrow> Inl e
                                 | Inr acc \<Rightarrow>
                                     (let acc = acc\<lparr>
                                            acc_run := acc_run acc @ [EventMetadata_fRun nt],
                                            acc_station_id :=
                                              acc_station_id acc @ [EventMetadata_fStnId nt],
                                            acc_dtms := acc_dtms acc @ [EventHeader_fDTms nt]\<rparr>
                                      in begin_power mV read_power nf
                                           event_times_file acc))))))))"

fun read_files ::
  "real \<Rightarrow> bool \<Rightarrow> bool \<Rightarrow> accumulators \<Rightarrow> noise_file list \<Rightarrow> py_error + accumulators" where
  "read_files mV read_temperatures read_power acc [] = Inr acc"
| "read_files mV read_temperatures read_power acc (nf # nfs) =
     (case begin_file mV read_temperatures read_power acc nf of
        Inl e \<Rightarrow> Inl e
      | Inr acc' \<Rightarrow> read_files mV read_temperatures read_power acc' nfs)"

text \<open>
  Line 114 reads the name \<open>read_temperature\<close>. The parameter of \<open>begin\<close> is
  \<open>read_temperatures\<close>; the module has no global of the name that line 114 reads and
  Python has no such builtin, so the lookup raises \<open>NameError\<close>.
\<close>

definition lookup_read_temperature :: "py_error + bool" where
  "lookup_read_temperature = Inl NameError"

text \<open>
  Lines 110 to 121: the attributes are assigned one after the other, so an exception
  leaves those assigned before it on the object. \<open>finish_tail\<close> is lines 116 to 121,
  \<open>finish_head\<close> lines 110 to 115.
\<close>

definition finish_power ::
  "bool \<Rightarrow> accumulators \<Rightarrow> noiseImporter \<Rightarrow> noiseImporter \<times> py_error option" where
  "finish_power read_power acc self =
     (if read_power then
        (case np_concatenate (acc_power_voltage acc) of
           Inl e \<Rightarrow> (self, Some e)
         | Inr p \<Rightarrow> (self\<lparr>self_power := Some p\<rparr>, None))
      else (self, None))"

definition finish_tail ::
  "bool \<Rightarrow> accumulators \<Rightarrow> noiseImporter \<Rightarrow> noiseImporter \<times> py_error option" where
  "finish_tail read_power acc self =
     (case finish_power read_power acc self of
        (self, Some e) \<Rightarrow> (self, Some e)
      | (self, None) \<Rightarrow>
          (case np_concatenate (acc_station_id acc) of
             Inl e \<Rightarrow> (self, Some e)
           | Inr sid \<Rightarrow>
               (let self = self\<lparr>self_station_id := Some sid\<rparr>
                in (case np_concatenate (acc_dtms acc) of
                      Inl e \<Rightarrow> (self, Some e)
                    | Inr dt \<Rightarrow>
                        (let self = self\<lparr>self_dtms := Some dt\<rparr>
                         in (case np_concatenate (acc_run acc) of
                               Inl e \<Rightarrow> (self, Some e)
                             | Inr rn \<Rightarrow>
                                 (let self = self\<lparr>self_run_number := Some rn\<rparr>
                                  in (case self_data self of
                                        None \<Rightarrow> (self, Some AttributeError)
                                      | Some d \<Rightarrow>
                                          (self\<lparr>self_nevts := Some (np_len d)\<rparr>,
                                           None)))))))))"

definition finish_temperature ::
  "bool \<Rightarrow> accumulators \<Rightarrow> noiseImporter \<Rightarrow> noiseImporter \<times> py_error option" where
  "finish_temperature read_power acc self =
     (case lookup_read_temperature of
        Inl e \<Rightarrow> (self, Some e)
      | Inr read_temperature \<Rightarrow>
          (if read_temperature then
             (case np_concatenate (acc_temperature acc) of
                Inl e \<Rightarrow> (self, Some e)
              | Inr t \<Rightarrow> finish_tail read_power acc (self\<lparr>self_temperature := Some t\<rparr>))
           else finish_tail read_power acc self))"

definition finish_head ::
  "bool \<Rightarrow> accumulators \<Rightarrow> noiseImporter \<Rightarrow> noiseImporter \<times> py_error option" where
  "finish_head read_power acc self =
     (case np_concatenate3 (acc_data acc) of
        Inl e \<Rightarrow> (self, Some e)
      | Inr d \<Rightarrow>
          (let self = self\<lparr>self_data := Some d\<rparr>
           in (case np_concatenate (acc_posix_times acc) of
                 Inl e \<Rightarrow> (self, Some e)
               | Inr pt \<Rightarrow>
                   (let self = self\<lparr>self_posix_time := Some pt\<rparr>;
                        self = self\<lparr>self_datetime := Some (map Seconds pt)\<rparr>
                    in (case np_concatenate (acc_trigger acc) of
                          Inl e \<Rightarrow> (self, Some e)
                        | Inr trg \<Rightarrow>
                            finish_temperature read_power acc
                              (self\<lparr>self_trigger := Some trg\<rparr>))))))"

text \<open>
  The method \<open>begin(noise_files, read_temperatures, read_power)\<close>: the object as the call
  leaves it, and the exception it raises, if any. An exception in the loop leaves the object as
  it was.
\<close>

definition begin_method ::
  "noiseImporter \<Rightarrow> real \<Rightarrow> noise_file list \<Rightarrow> bool \<Rightarrow> bool
     \<Rightarrow> noiseImporter \<times> py_error option" where
  "begin_method self mV noise_files read_temperatures read_power =
     (case read_files mV read_temperatures read_power empty_accumulators noise_files of
        Inl e \<Rightarrow> (self, Some e)
      | Inr acc \<Rightarrow> finish_head read_power acc self)"

subsection \<open>A small corpus\<close>

text \<open>A corpus of two events with four channels of two samples, and an importer holding it.\<close>

definition corpus_2x4 :: ndarray3 where
  "corpus_2x4 = \<lparr>nchan = 4, nsamp = 2,
     rows = [[[1, 2], [3, 4], [5, 6], [7, 8]], [[9, 10], [11, 12], [13, 14], [15, 16]]]\<rparr>"

definition importer_2x4 :: noiseImporter where
  "importer_2x4 = new_importer\<lparr>self_data := Some corpus_2x4, self_nevts := Some 2\<rparr>"

definition channel_of :: "int \<Rightarrow> real list \<Rightarrow> channel" where
  "channel_of i tr = \<lparr>get_id = i, get_trace = tr, get_sampling_rate = 1\<rparr>"

subsection \<open>A small noise file\<close>

text \<open>
  A file with one event of one channel and one sample, read at the time whose record is
  handed over; a temperature tree and a voltage tree with two readings each.
\<close>

definition calib_at :: "int list \<Rightarrow> calib_tree" where
  "calib_at time_record =
     \<lparr>AmpOutData_fData = \<lparr>nchan = 1, nsamp = 1, rows = [[[2]]]\<rparr>,
      EventHeader_fTrgInfo = [[2]],
      EventHeader_fTime = [time_record],
      EventMetadata_fRun = [1],
      EventMetadata_fStnId = [51],
      EventHeader_fDTms = [0]\<rparr>"

definition file_at :: "int list \<Rightarrow> noise_file" where
  "file_at time_record =
     \<lparr>CalibTree = Some (calib_at time_record),
      TemperatureTree =
        Some \<lparr>Temperature_fTime = [[0, 0], [10, 0]], Temperature_fTemp = [1, 2]\<rparr>,
      VoltageTree =
        Some \<lparr>PowerReading_fTime = [[0, 0], [10, 0]],
              PowerReading_branches =
                [(''PowerReading./PowerReading.faveV1'', [3000, 4000])]\<rparr>\<rparr>"

text \<open>The importer after the lines 110 to 113 have run on that file.\<close>

definition importer_after_line_113 :: noiseImporter where
  "importer_after_line_113 =
     new_importer\<lparr>self_data := Some \<lparr>nchan = 1, nsamp = 1, rows = [[[2]]]\<rparr>,
       self_posix_time := Some [5], self_datetime := Some [Seconds 5],
       self_trigger := Some [2]\<rparr>"

text \<open>The seconds of the events of a file: the first element of each time record.\<close>

definition event_seconds :: "noise_file \<Rightarrow> int list" where
  "event_seconds nf =
     (case CalibTree nf of None \<Rightarrow> [] | Some nt \<Rightarrow> map hd (EventHeader_fTime nt))"

section \<open>Properties of run\<close>

lemma py_index_nonneg:
  "0 \<le> i \<Longrightarrow> i < int (length xs) \<Longrightarrow> py_index xs i = Inr (xs ! nat i)"
  by (simp add: py_index_def)

lemma py_index_neg:
  "i < 0 \<Longrightarrow> - int (length xs) \<le> i \<Longrightarrow> py_index xs i = Inr (xs ! nat (int (length xs) + i))"
  by (simp add: py_index_def)

lemma py_index_length: "py_index xs (int (length xs)) = Inl IndexError"
  by (simp add: py_index_def)

lemma wf_row: "wf_ndarray3 d \<Longrightarrow> i < length (rows d) \<Longrightarrow> length (rows d ! i) = nchan d"
  by (simp add: wf_ndarray3_def)


lemma wf_corpus_2x4: "wf_ndarray3 corpus_2x4"
  by (simp add: wf_ndarray3_def corpus_2x4_def)

lemma importer_2x4_simps:
  "self_data importer_2x4 = Some corpus_2x4" "self_nevts importer_2x4 = Some 2"
  by (simp_all add: importer_2x4_def)

lemma corpus_2x4_simps:
  "nchan corpus_2x4 = 4" "nsamp corpus_2x4 = 2" "length (rows corpus_2x4) = 2"
  "np_len corpus_2x4 = 2"
  by (simp_all add: corpus_2x4_def np_len_def)

lemma resolve_below:
  "channel_id < nchans \<Longrightarrow> resolve_channel_id warnings_on channel_id nchans = Inr channel_id"
  by (simp add: resolve_channel_id_def)

lemma resolve_quiet:
  "nchans \<le> channel_id \<Longrightarrow> 0 < nchans \<Longrightarrow>
     resolve_channel_id False channel_id nchans = Inr (channel_id mod nchans)"
  by (simp add: resolve_channel_id_def logger_warning_kwargs_def)

lemma resolve_raises:
  "nchans \<le> channel_id \<Longrightarrow> 0 < nchans \<Longrightarrow>
     resolve_channel_id True channel_id nchans = Inl TypeError"
  by (simp add: resolve_channel_id_def logger_warning_kwargs_def)

lemma inject_selects:
  assumes "wf_ndarray3 d" and "0 \<le> r" and "r < int (length (rows d))"
    and "- int (nchan d) \<le> c" and "c < int (nchan d)"
  shows "inject d mV r c ch =
           Inr (ch\<lparr>get_trace :=
                  add_trace
                    (scale_trace mV
                       (rows d ! nat r ! nat (if c < 0 then int (nchan d) + c else c)))
                    (get_trace ch)\<rparr>)"
proof -
  have ev: "py_index (rows d) r = Inr (rows d ! nat r)"
    using assms by (simp add: py_index_nonneg)
  have len: "length (rows d ! nat r) = nchan d"
    using assms by (simp add: wf_row)
  have w: "py_index (rows d ! nat r) c
             = Inr (rows d ! nat r ! nat (if c < 0 then int (nchan d) + c else c))"
  proof (cases "c < 0")
    case True
    then show ?thesis
      using assms(4) len py_index_neg [of c "rows d ! nat r"] by simp
  next
    case False
    then show ?thesis
      using assms(5) len py_index_nonneg [of c "rows d ! nat r"] by simp
  qed
  show ?thesis
    using ev w by (simp add: inject_def set_trace_def Let_def)
qed

lemma run_channel_unfold:
  assumes "self_data self = Some d" and "self_nevts self = Some n"
    and "resolve_channel_id warnings_on (get_id ch) (int (nchan d)) = Inr c"
  shows "run_channel self mV warnings_on r ch =
           (if nsamp d \<noteq> length (get_trace ch)
            then (logger_warning warnings_on (Mismatch (nsamp d) (length (get_trace ch))),
                  Inr ch)
            else ([], inject d mV r c ch))"
  using assms by (simp add: run_channel_def np_shape_def Let_def)

lemma run_channel_raises:
  assumes "self_data self = Some d" and "self_nevts self = Some n"
    and "resolve_channel_id warnings_on (get_id ch) (int (nchan d)) = Inl e"
  shows "run_channel self mV warnings_on r ch = ([], Inl e)"
  using assms by (simp add: run_channel_def np_shape_def Let_def)

lemma run_draw_member:
  "self_nevts self = Some n \<Longrightarrow> 0 \<le> r \<Longrightarrow> r \<le> int n \<Longrightarrow>
     run_channel self mV warnings_on r ch \<in> run_draw self mV warnings_on ch"
  by (simp add: run_draw_def randint_def)

text \<open>
  Claim C4. Line 173 draws the index of the noise event with \<open>random.randint(0, self.nevts)\<close>,
  whose upper bound is included. So the number of events itself is among the draws, it is
  the one draw that is outside the corpus, and for a channel that reaches line 192 (the
  trace has the length of the noise, and line 181 is not reached or the logger is
  silent) the access \<open>self.data[noise_event]\<close> is then one past the end of the corpus:
  raising \<open>IndexError\<close> is one of the outcomes of the loop body.
\<close>

theorem randint_draws_one_past_the_end:
  assumes "self_data self = Some d" and "self_nevts self = Some (np_len d)"
    and "nsamp d = length (get_trace ch)"
    and "get_id ch < int (nchan d) \<or> (\<not> warnings_on \<and> 0 < nchan d)"
  shows "run_channel self mV warnings_on (int (np_len d)) ch = ([], Inl IndexError)
       \<and> ([], Inl IndexError) \<in> run_draw self mV warnings_on ch
       \<and> (\<forall>r \<in> randint 0 (int (np_len d)).
            (py_index (rows d) r = Inl IndexError) = (r = int (np_len d)))"
proof -
  have "\<exists>c. resolve_channel_id warnings_on (get_id ch) (int (nchan d)) = Inr c"
  proof (cases "get_id ch < int (nchan d)")
    case True
    then show ?thesis by (simp add: resolve_below)
  next
    case False
    then show ?thesis using assms(4) by (simp add: resolve_quiet)
  qed
  then obtain c where res: "resolve_channel_id warnings_on (get_id ch) (int (nchan d)) = Inr c"
    by blast
  have a: "run_channel self mV warnings_on (int (np_len d)) ch = ([], Inl IndexError)"
    using run_channel_unfold [OF assms(1,2) res] assms(3)
    by (simp add: inject_def np_len_def py_index_length)
  have "run_channel self mV warnings_on (int (np_len d)) ch \<in> run_draw self mV warnings_on ch"
    using run_draw_member [OF assms(2)] by simp
  then have b: "([], Inl IndexError) \<in> run_draw self mV warnings_on ch"
    by (simp add: a)
  have c: "\<forall>r \<in> randint 0 (int (np_len d)).
             (py_index (rows d) r = Inl IndexError) = (r = int (np_len d))"
    by (auto simp: randint_def py_index_def np_len_def)
  show ?thesis using a b c by blast
qed

theorem randint_draws_one_past_the_end_witness:
  "run_channel importer_2x4 (1/1000) True 2 (channel_of 1 [0, 0]) = ([], Inl IndexError)
     \<and> ([], Inl IndexError) \<in> run_draw importer_2x4 (1/1000) True (channel_of 1 [0, 0])"
  using randint_draws_one_past_the_end
    [where self = importer_2x4 and d = corpus_2x4 and ch = "channel_of 1 [0, 0]"
       and warnings_on = True and mV = "1/1000"]
  by (simp add: importer_2x4_simps corpus_2x4_simps channel_of_def)

text \<open>
  For a channel whose id is below the channel count, a trace whose length differs from
  the sample count of the corpus is left as it is, with one mismatch warning.
\<close>

lemma mismatch_skips_injection:
  assumes "self_data self = Some d" and "self_nevts self = Some n"
    and "nsamp d \<noteq> length (get_trace ch)" and "get_id ch < int (nchan d)"
  shows "run_channel self mV True r ch
           = ([Mismatch (nsamp d) (length (get_trace ch))], Inr ch)"
  using run_channel_unfold [OF assms(1,2) resolve_below [OF assms(4)]] assms(3)
  by (simp add: logger_warning_def)

lemma run_draw_importer_2x4:
  "run_draw importer_2x4 mV warnings_on ch
     = (\<lambda>r. run_channel importer_2x4 mV warnings_on r ch) ` {0..2}"
  by (simp add: run_draw_def importer_2x4_simps randint_def)

text \<open>
  Claim C5 says that a channel whose trace length differs from the sample count of the
  corpus is skipped with exactly one warning and no exception, and that the loop goes
  on. With four noise channels, the channel id 6 and a trace of three samples against
  two, the body raises \<open>TypeError\<close> at line 181, before the lengths are compared: no
  record is logged, and \<open>run\<close> ends without looking at the next channel.
\<close>

theorem mismatch_after_remap_raises_TypeError:
  "run_channel importer_2x4 mV True r (channel_of 6 [0, 0, 0]) = ([], Inl TypeError)
   \<and> run importer_2x4 mV True [channel_of 6 [0, 0, 0], channel_of 1 [0, 0, 0]]
       = {([], [channel_of 6 [0, 0, 0], channel_of 1 [0, 0, 0]], Some TypeError)}"
proof -
  have res: "resolve_channel_id True (get_id (channel_of 6 [0, 0, 0]))
               (int (nchan corpus_2x4)) = Inl TypeError"
    by (simp add: resolve_raises corpus_2x4_simps channel_of_def)
  have a: "\<And>r. run_channel importer_2x4 mV True r (channel_of 6 [0, 0, 0])
                = ([], Inl TypeError)"
    using run_channel_raises [OF importer_2x4_simps res] by simp
  have b: "run_draw importer_2x4 mV True (channel_of 6 [0, 0, 0]) = {([], Inl TypeError)}"
    by (simp add: run_draw_importer_2x4 a image_constant_conv)
  show ?thesis
    by (simp add: a b)
qed



lemma remap_raises_TypeError:
  assumes "self_data self = Some d" and "self_nevts self = Some n"
    and "int (nchan d) \<le> get_id ch" and "0 < nchan d"
  shows "run_channel self mV True r ch = ([], Inl TypeError)"
  using run_channel_raises [OF assms(1,2)] resolve_raises [OF assms(3)] assms(4)
  by simp

text \<open>
  Claim C7 says that a channel id at or above the channel count is reduced modulo the
  channel count with exactly one warning, and that the noise of the remapped channel is
  injected. With four noise channels and the id 6, the example of the specification, the
  warning of line 181 raises \<open>TypeError\<close> and nothing is injected; when the logger is
  silent, the noise of channel 2 is injected and no warning is on record.
\<close>

theorem remap_warning_raises_TypeError:
  "run_channel importer_2x4 mV True r (channel_of 6 [0, 0]) = ([], Inl TypeError)
   \<and> run_channel importer_2x4 (1/1000) False 0 (channel_of 6 [0, 0])
       = ([], Inr (channel_of 6 [5/1000, 6/1000]))"
proof -
  have a: "run_channel importer_2x4 mV True r (channel_of 6 [0, 0]) = ([], Inl TypeError)"
    using remap_raises_TypeError [OF importer_2x4_simps, of "channel_of 6 [0, 0]" mV r]
    by (simp add: corpus_2x4_simps channel_of_def)
  have res: "resolve_channel_id False (get_id (channel_of 6 [0, 0]))
               (int (nchan corpus_2x4)) = Inr 2"
    by (simp add: resolve_quiet corpus_2x4_simps channel_of_def)
  have w: "rows corpus_2x4 ! nat 0 ! nat 2 = [5, 6]"
    by (simp add: corpus_2x4_def numeral_2_eq_2)
  have b: "run_channel importer_2x4 (1/1000) False 0 (channel_of 6 [0, 0])
             = ([], Inr (channel_of 6 [5/1000, 6/1000]))"
    using run_channel_unfold [OF importer_2x4_simps res, of "1/1000" 0]
      inject_selects [OF wf_corpus_2x4, of 0 2 "1/1000" "channel_of 6 [0, 0]"] w
    by (simp add: corpus_2x4_simps channel_of_def scale_trace_def add_trace_def)
  show ?thesis using a b by blast
qed

text \<open>
  Claim C10. The guard of line 178 holds only for ids above \<open>nchans - 1\<close>. A negative id
  of magnitude at most the channel count, on a channel whose trace has the sample count
  of the corpus, gets no warning and no remap: \<open>self.data[noise_event][channel_id]\<close>
  counts from the end and adds the noise of channel \<open>nchans + channel_id\<close>.
\<close>

theorem negative_channel_id_indexes_from_end:
  assumes "self_data self = Some d" and "self_nevts self = Some n"
    and "get_id ch < 0" and "- int (nchan d) \<le> get_id ch"
    and "nsamp d = length (get_trace ch)"
    and "0 \<le> r" and "r < int (length (rows d))" and "wf_ndarray3 d"
  shows "run_channel self mV warnings_on r ch =
           ([], Inr (ch\<lparr>get_trace := add_trace
                (scale_trace mV (rows d ! nat r ! nat (int (nchan d) + get_id ch)))
                (get_trace ch)\<rparr>))"
proof -
  have ev: "py_index (rows d) r = Inr (rows d ! nat r)"
    using assms by (simp add: py_index_nonneg)
  have len: "length (rows d ! nat r) = nchan d"
    using assms by (simp add: wf_row)
  have w: "py_index (rows d ! nat r) (get_id ch)
             = Inr (rows d ! nat r ! nat (int (nchan d) + get_id ch))"
    using assms len py_index_neg [of "get_id ch" "rows d ! nat r"] by simp
  have res: "resolve_channel_id warnings_on (get_id ch) (int (nchan d)) = Inr (get_id ch)"
    using assms by (simp add: resolve_channel_id_def)
  show ?thesis
    using run_channel_unfold [OF assms(1,2) res] assms(5) ev w
    by (simp add: inject_def set_trace_def Let_def)
qed

theorem negative_channel_id_indexes_from_end_witness:
  "run_channel importer_2x4 (1/1000) True 1 (channel_of (- 1) [1, 1])
     = ([], Inr (channel_of (- 1) [1 + 15/1000, 1 + 16/1000]))"
proof -
  have "rows corpus_2x4 ! nat 1 ! nat (int 4 + - 1) = [15, 16]"
    by (simp add: corpus_2x4_def numeral_3_eq_3)
  then show ?thesis
    using negative_channel_id_indexes_from_end
      [where self = importer_2x4 and d = corpus_2x4 and n = 2
         and ch = "channel_of (- 1) [1, 1]" and r = 1 and mV = "1/1000"
         and warnings_on = True]
    by (simp add: importer_2x4_simps corpus_2x4_simps wf_corpus_2x4 channel_of_def
        scale_trace_def add_trace_def)
qed

section \<open>Properties of begin\<close>

lemma finish_temperature_raises:
  "finish_temperature read_power acc self = (self, Some NameError)"
  by (simp add: finish_temperature_def lookup_read_temperature_def)

lemma finish_head_raises: "\<exists>e. snd (finish_head read_power acc self) = Some e"
  by (simp add: finish_head_def finish_temperature_raises Let_def split: sum.splits)

text \<open>
  Whatever the files and the flags are, \<open>begin\<close> ends with an exception: a call that
  gets through the loop and the first concatenations reaches line 114.
\<close>

lemma begin_method_never_completes:
  "\<exists>e. snd (begin_method self mV noise_files read_temperatures read_power) = Some e"
  by (simp add: begin_method_def finish_head_raises split: sum.splits)

lemma begin_file_file_at:
  "begin_file mV False False empty_accumulators (file_at [5, 7]) =
     Inr \<lparr>acc_data = [\<lparr>nchan = 1, nsamp = 1, rows = [[[2]]]\<rparr>], acc_trigger = [[2]],
          acc_posix_times = [[5]], acc_run = [[1]], acc_station_id = [[51]],
          acc_temperature = [], acc_power_voltage = [], acc_dtms = [[0]]\<rparr>"
  by (simp add: begin_file_def file_at_def calib_at_def read_data_def read_full_def
      num_entries_def np_col0_def begin_temperature_def begin_power_def
      empty_accumulators_def Let_def)

text \<open>
  Claim C2 says that \<open>begin\<close> with both flags off completes and leaves a corpus whose
  arrays all have \<open>eventCount\<close> entries. On a list of one valid file the call raises
  \<open>NameError\<close> at line 114 instead: \<open>data\<close>, \<open>posix_time\<close>, \<open>datetime\<close> and \<open>trigger\<close>
  are set by then, \<open>station_id\<close>, \<open>dtms\<close>, \<open>run_number\<close> and \<open>nevts\<close> never are.
\<close>

theorem begin_raises_NameError_at_line_114:
  "begin_method new_importer mV [file_at [5, 7]] False False
     = (importer_after_line_113, Some NameError)
   \<and> self_nevts importer_after_line_113 = None"
  by (simp add: begin_method_def begin_file_file_at finish_head_def np_concatenate3_def
      np_concatenate_def finish_temperature_raises importer_after_line_113_def
      new_importer_def Let_def)

lemma read_power_curve_IntArray:
  "VoltageTree nf = Some nt \<Longrightarrow> ak_col0 (PowerReading_fTime nt) = Inr time \<Longrightarrow>
     read_power_curve mV nf (IntArray ts) None = Inl TypeError"
  by (simp add: read_power_curve_def str_plus_def)

text \<open>
  Claim C3 says that \<open>begin\<close> with \<open>read_power\<close> leaves one interpolated voltage for each
  event in \<open>power\<close>. Line 107 hands the event times over in the place of \<open>val\<close>, so
  \<open>_read_power_curve\<close> raises \<open>TypeError\<close> when it builds the name of the branch, for the
  first file already, and \<open>begin\<close> leaves the object without any attribute.
\<close>

theorem begin_read_power_raises_TypeError:
  "begin_method new_importer mV [file_at [5, 7]] False True = (new_importer, Some TypeError)
   \<and> read_power_curve mV (file_at [5, 7]) (IntArray [5]) None = Inl TypeError"
proof -
  have v: "VoltageTree (file_at [5, 7])
             = Some \<lparr>PowerReading_fTime = [[0, 0], [10, 0]],
                     PowerReading_branches =
                       [(''PowerReading./PowerReading.faveV1'', [3000, 4000])]\<rparr>"
    by (simp add: file_at_def)
  have t: "ak_col0 [[0, 0], [10, 0::int]] = Inr [0, 10]"
    by (simp add: ak_col0_def)
  have p: "\<And>ts. read_power_curve mV (file_at [5, 7]) (IntArray ts) None = Inl TypeError"
    using read_power_curve_IntArray [OF v] t by simp
  have f: "begin_file mV False True empty_accumulators (file_at [5, 7]) = Inl TypeError"
    using p [of "[5]"]
    by (simp add: begin_file_def file_at_def calib_at_def read_data_def read_full_def
        num_entries_def np_col0_def begin_temperature_def begin_power_def
        empty_accumulators_def Let_def)
  show ?thesis
    by (simp add: begin_method_def f p)
qed

subsection \<open>The read of the waveforms\<close>

lemma concat_chunks:
  "concat (map (\<lambda>i. take k (drop (i * k) xs)) [0..<m]) = take (m * k) xs"
proof (induction m)
  case 0
  then show ?case by simp
next
  case (Suc m)
  have "take (m * k + k) xs = take (m * k) xs @ take k (drop (m * k) xs)"
    by (rule take_add)
  then show ?case
    using Suc by (simp add: add.commute)
qed

lemma np_arange_length: "length (np_arange n step) = (n + step - 1) div step"
  by (simp add: np_arange_def)

lemma np_arange_nth: "i < (n + step - 1) div step \<Longrightarrow> np_arange n step ! i = i * step"
  unfolding np_arange_def by (subst nth_map) (simp_all only: length_upt diff_zero nth_upt add_0)

lemma bunch_count:
  fixes n k :: nat
  assumes "0 < n" and "0 < k"
  shows "0 < (n + k - 1) div k"
    and "((n + k - 1) div k - 1) * k < n"
    and "n \<le> ((n + k - 1) div k) * k"
proof -
  define a where "a = n + k - 1"
  define m where "m = a div k"
  have eq: "m * k + a mod k = a"
    by (simp add: m_def)
  have lt: "a mod k < k"
    using assms(2) by simp
  have a: "a + 1 = n + k"
    using assms by (simp add: a_def)
  show "0 < (n + k - 1) div k"
    using assms by (simp add: div_greater_zero_iff)
  have d: "(m - 1) * k = m * k - k"
    by (simp add: diff_mult_distrib)
  show "((n + k - 1) div k - 1) * k < n"
    unfolding a_def [symmetric] m_def [symmetric] d using eq lt a assms by linarith
  show "n \<le> ((n + k - 1) div k) * k"
    unfolding a_def [symmetric] m_def [symmetric] using eq lt a by linarith
qed

text \<open>The chunks between consecutive bounds put the list together again.\<close>

lemma chunks_between:
  fixes xs :: "'a list"
  assumes m: "0 < m" and lo: "(m - 1) * k < length xs" and hi: "length xs \<le> m * k"
    and len: "length first = m"
    and first: "\<And>i. i < m \<Longrightarrow> first ! i = i * k"
    and lastI: "\<And>i. Suc i < m \<Longrightarrow> lst ! i = Suc i * k"
    and lastE: "lst ! (m - 1) = length xs"
  shows "concat (map (\<lambda>i. take (lst ! i - first ! i) (drop (first ! i) xs)) [0..<length first])
           = xs"
proof -
  obtain m' where m': "m = Suc m'"
    using m by (cases m) auto
  have inner: "map (\<lambda>i. take (lst ! i - first ! i) (drop (first ! i) xs)) [0..<m']
             = map (\<lambda>i. take k (drop (i * k) xs)) [0..<m']"
  proof (rule map_cong [OF refl])
    fix i assume "i \<in> set [0..<m']"
    then have i: "Suc i < m" "i < m"
      by (simp_all add: m')
    have "lst ! i - first ! i = k"
      using lastI [OF i(1)] first [OF i(2)] by simp
    then show "take (lst ! i - first ! i) (drop (first ! i) xs) = take k (drop (i * k) xs)"
      using first [OF i(2)] by simp
  qed
  have final: "take (lst ! m' - first ! m') (drop (first ! m') xs) = drop (m' * k) xs"
  proof -
    have f: "first ! m' = m' * k"
      using first [of m'] by (simp add: m')
    have l: "lst ! m' = length xs"
      using lastE by (simp add: m')
    show ?thesis
      by (simp add: f l)
  qed
  have "concat (map (\<lambda>i. take (lst ! i - first ! i) (drop (first ! i) xs)) [0..<length first])
      = concat (map (\<lambda>i. take (lst ! i - first ! i) (drop (first ! i) xs)) [0..<m'])
        @ take (lst ! m' - first ! m') (drop (first ! m') xs)"
    by (simp add: len m')
  also have "\<dots> = take (m' * k) xs @ drop (m' * k) xs"
    by (simp only: inner final concat_chunks)
  finally show ?thesis
    by simp
qed

lemma bunches_concat:
  fixes xs :: "'a list"
  assumes n: "0 < length xs" and k: "0 < k"
  shows "concat (map (\<lambda>i. take (tl (np_arange (length xs) k @ [length xs]) ! i
                               - butlast (np_arange (length xs) k @ [length xs]) ! i)
                          (drop (butlast (np_arange (length xs) k @ [length xs]) ! i) xs))
           [0..<length (butlast (np_arange (length xs) k @ [length xs]))]) = xs"
proof -
  define n where "n = length xs"
  define m where "m = (n + k - 1) div k"
  define bs where "bs = np_arange n k @ [n]"
  have m: "0 < m" "(m - 1) * k < n" "n \<le> m * k"
    using bunch_count [of n k] n k by (simp_all add: m_def n_def)
  have la: "length (np_arange n k) = m"
    by (simp add: np_arange_length m_def)
  have ne: "np_arange n k \<noteq> []"
    using la m(1) by auto
  have bl: "butlast bs = np_arange n k"
    by (simp add: bs_def)
  have tl: "tl bs = tl (np_arange n k) @ [n]"
    using ne by (simp add: bs_def)
  have first: "\<And>i. i < m \<Longrightarrow> butlast bs ! i = i * k"
    unfolding bl m_def by (rule np_arange_nth)
  have lastI: "\<And>i. Suc i < m \<Longrightarrow> tl bs ! i = Suc i * k"
  proof -
    fix i assume i: "Suc i < m"
    have "i < length (tl (np_arange n k))"
      using i la by simp
    then have "tl bs ! i = tl (np_arange n k) ! i"
      unfolding tl by (simp add: nth_append)
    also have "\<dots> = np_arange n k ! Suc i"
      using i la by (simp add: nth_tl)
    also have "\<dots> = Suc i * k"
      using i unfolding m_def by (rule np_arange_nth)
    finally show "tl bs ! i = Suc i * k" .
  qed
  have lastE: "tl bs ! (m - 1) = length xs"
    unfolding tl using la by (simp add: nth_append n_def)
  have len: "length (butlast bs) = m"
    by (simp add: bl la)
  have "concat (map (\<lambda>i. take (tl bs ! i - butlast bs ! i) (drop (butlast bs ! i) xs))
                   [0..<length (butlast bs)]) = xs"
    using m(2,3) by (intro chunks_between [OF m(1) _ _ len first lastI lastE])
      (simp_all add: n_def)
  then show ?thesis
    unfolding bs_def n_def .
qed

lemma read_bunches_rows:
  assumes "0 < num_entries nt"
  shows "concat (map rows (read_bunches mV nt)) = rows (scale3 mV (AmpOutData_fData nt))"
proof -
  define xs where "xs = rows (AmpOutData_fData nt)"
  define bs where "bs = np_arange (length xs) 1000 @ [length xs]"
  have n: "0 < length xs"
    using assms by (simp add: xs_def num_entries_def)
  have chunks: "concat (map (\<lambda>i. take (tl bs ! i - butlast bs ! i) (drop (butlast bs ! i) xs))
                   [0..<length (butlast bs)]) = xs"
    unfolding bs_def by (rule bunches_concat [OF n]) simp
  have "concat (map rows (read_bunches mV nt))
      = concat (map (\<lambda>i. map (map (scale_trace mV))
            (take (tl bs ! i - butlast bs ! i) (drop (butlast bs ! i) xs)))
          [0..<length (butlast bs)])"
    unfolding read_bunches_def Let_def num_entries_def xs_def [symmetric] bs_def [symmetric]
    by (simp add: scale3_def array_entries_def comp_def xs_def)
  also have "\<dots> = map (map (scale_trace mV))
      (concat (map (\<lambda>i. take (tl bs ! i - butlast bs ! i) (drop (butlast bs ! i) xs))
          [0..<length (butlast bs)]))"
    by (simp add: map_concat comp_def)
  also have "\<dots> = rows (scale3 mV (AmpOutData_fData nt))"
    by (simp only: chunks) (simp add: scale3_def xs_def)
  finally show ?thesis .
qed


lemma read_bunches_shape:
  "b \<in> set (read_bunches mV nt) \<Longrightarrow>
     nchan b = nchan (AmpOutData_fData nt) \<and> nsamp b = nsamp (AmpOutData_fData nt)"
  by (auto simp: read_bunches_def Let_def scale3_def array_entries_def)

lemma read_bunches_length:
  "length (read_bunches mV nt) = (num_entries nt + 1000 - 1) div 1000"
proof -
  have "length (read_bunches mV nt) = length (np_arange (num_entries nt) 1000)"
    unfolding read_bunches_def Let_def by (simp only: length_map length_upt butlast_snoc diff_zero)
  then show ?thesis
    by (simp only: np_arange_length)
qed

lemma read_bunches_nonempty:
  assumes "0 < num_entries nt"
  shows "read_bunches mV nt \<noteq> []"
proof -
  have "0 < (num_entries nt + 1000 - 1) div 1000"
    by (rule bunch_count(1) [OF assms]) simp
  then have "0 < length (read_bunches mV nt)"
    by (simp only: read_bunches_length)
  then show ?thesis
    by auto
qed


lemma np_concatenate3_uniform:
  assumes "as \<noteq> []" and "\<forall>c \<in> set as. nchan c = n \<and> nsamp c = s"
  shows "np_concatenate3 as = Inr \<lparr>nchan = n, nsamp = s, rows = concat (map rows as)\<rparr>"
  using assms by (cases as) (simp_all add: np_concatenate3_def)

lemma scale3_fields:
  "\<lparr>nchan = nchan a, nsamp = nsamp a, rows = rows (scale3 c a)\<rparr> = scale3 c a"
  by (simp add: scale3_def)

lemma read_bunches_concatenated:
  assumes "0 < num_entries nt"
  shows "np_concatenate3 (read_bunches mV nt) = Inr (scale3 mV (AmpOutData_fData nt))"
proof -
  have shape: "\<forall>c \<in> set (read_bunches mV nt).
      nchan c = nchan (AmpOutData_fData nt) \<and> nsamp c = nsamp (AmpOutData_fData nt)"
    using read_bunches_shape by blast
  have "np_concatenate3 (read_bunches mV nt)
          = Inr \<lparr>nchan = nchan (AmpOutData_fData nt), nsamp = nsamp (AmpOutData_fData nt),
                 rows = concat (map rows (read_bunches mV nt))\<rparr>"
    using read_bunches_nonempty [OF assms] shape by (rule np_concatenate3_uniform)
  then show ?thesis
    by (simp only: read_bunches_rows [OF assms] scale3_fields)
qed

lemma read_data_small:
  "num_entries nt < 1000 \<Longrightarrow> read_data mV nt = [AmpOutData_fData nt]"
  by (simp add: read_data_def read_full_def)

lemma begin_file_at_any:
  "begin_file mV False False empty_accumulators (file_at [s, ns]) =
     Inr \<lparr>acc_data = [\<lparr>nchan = 1, nsamp = 1, rows = [[[2]]]\<rparr>], acc_trigger = [[2]],
          acc_posix_times = [[s]], acc_run = [[1]], acc_station_id = [[51]],
          acc_temperature = [], acc_power_voltage = [], acc_dtms = [[0]]\<rparr>"
  by (simp add: begin_file_def file_at_def calib_at_def read_data_def read_full_def
      num_entries_def np_col0_def begin_temperature_def begin_power_def
      empty_accumulators_def Let_def)

lemma begin_method_at_any:
  "fst (begin_method new_importer mV [file_at [s, ns]] False False)
     = new_importer\<lparr>self_data := Some \<lparr>nchan = 1, nsamp = 1, rows = [[[2]]]\<rparr>,
         self_posix_time := Some [s], self_datetime := Some [Seconds s],
         self_trigger := Some [2]\<rparr>"
  by (simp add: begin_method_def begin_file_at_any finish_head_def np_concatenate3_def
      np_concatenate_def finish_temperature_raises new_importer_def Let_def)

lemma calib_at_entries:
  "num_entries (calib_at t) = 1"
  "AmpOutData_fData (calib_at t) = \<lparr>nchan = 1, nsamp = 1, rows = [[[2]]]\<rparr>"
  by (simp_all add: num_entries_def calib_at_def)

text \<open>
  Claim C1 says that the read in batches, concatenated, and the single read of the whole
  field give one and the same array, the scaling by \<open>units.mV\<close> included. The batches
  of lines 80 to 86 do give the scaled field (\<open>read_bunches_concatenated\<close>). The single
  read of line 78, taken for a file of fewer than 1000 events, appends the field as it
  stands in the file: for the file of one event with the sample 2 the batches give
  \<open>2 * mV\<close>, line 78 gives 2, and that is what \<open>begin\<close> leaves in \<open>data\<close>.
\<close>

theorem small_file_read_lacks_mV_scaling:
  "read_data mV (calib_at [5, 7]) = [\<lparr>nchan = 1, nsamp = 1, rows = [[[2]]]\<rparr>]
   \<and> np_concatenate3 (read_bunches mV (calib_at [5, 7]))
       = Inr \<lparr>nchan = 1, nsamp = 1, rows = [[[2 * mV]]]\<rparr>
   \<and> self_data (fst (begin_method new_importer mV [file_at [5, 7]] False False))
       = Some \<lparr>nchan = 1, nsamp = 1, rows = [[[2]]]\<rparr>"
proof -
  have "read_data mV (calib_at [5, 7]) = [\<lparr>nchan = 1, nsamp = 1, rows = [[[2]]]\<rparr>]"
    using read_data_small [of "calib_at [5, 7]" mV] by (simp add: calib_at_entries)
  moreover have "np_concatenate3 (read_bunches mV (calib_at [5, 7]))
       = Inr \<lparr>nchan = 1, nsamp = 1, rows = [[[2 * mV]]]\<rparr>"
    using read_bunches_concatenated [of "calib_at [5, 7]" mV]
    by (simp add: calib_at_entries scale3_def scale_trace_def)
  moreover have "self_data (fst (begin_method new_importer mV [file_at [5, 7]] False False))
       = Some \<lparr>nchan = 1, nsamp = 1, rows = [[[2]]]\<rparr>"
    by (simp add: begin_method_at_any)
  ultimately show ?thesis
    by simp
qed

theorem small_file_read_lacks_mV_scaling_witness:
  "read_data (1 / 1000) (calib_at [5, 7]) = [\<lparr>nchan = 1, nsamp = 1, rows = [[[2]]]\<rparr>]
   \<and> np_concatenate3 (read_bunches (1 / 1000) (calib_at [5, 7]))
       = Inr \<lparr>nchan = 1, nsamp = 1, rows = [[[2 / 1000]]]\<rparr>"
  using small_file_read_lacks_mV_scaling [of "1 / 1000"] by simp

subsection \<open>The times of the events\<close>

lemma np_col0_Inr: "np_col0 xss = Inr ys \<Longrightarrow> ys = map hd xss"
  by (auto simp: np_col0_def split: list.splits if_splits)

lemma begin_temperature_posix:
  "begin_temperature rt nf ts acc = Inr acc' \<Longrightarrow> acc_posix_times acc' = acc_posix_times acc"
  by (auto simp: begin_temperature_def split: if_splits sum.splits)

lemma begin_power_posix:
  "begin_power mV rp nf ts acc = Inr acc' \<Longrightarrow> acc_posix_times acc' = acc_posix_times acc"
  by (auto simp: begin_power_def split: if_splits sum.splits)

lemma begin_file_posix:
  assumes "begin_file mV rt rp acc nf = Inr acc'"
  shows "acc_posix_times acc' = acc_posix_times acc @ [event_seconds nf]"
proof -
  obtain nt where nt: "CalibTree nf = Some nt"
    using assms by (auto simp: begin_file_def split: option.splits)
  obtain trg where trg: "np_col0 (EventHeader_fTrgInfo nt) = Inr trg"
    using assms nt by (auto simp: begin_file_def Let_def split: sum.splits)
  obtain ts where ts: "np_col0 (EventHeader_fTime nt) = Inr ts"
    using assms nt trg by (auto simp: begin_file_def Let_def split: sum.splits)
  let ?acc1 = "acc\<lparr>acc_data := acc_data acc @ read_data mV nt,
                   acc_trigger := acc_trigger acc @ [trg],
                   acc_posix_times := acc_posix_times acc @ [ts]\<rparr>"
  obtain acc2 where a2: "begin_temperature rt nf ts ?acc1 = Inr acc2"
    using assms nt trg ts by (auto simp: begin_file_def Let_def split: sum.splits)
  have a3: "begin_power mV rp nf ts
              (acc2\<lparr>acc_run := acc_run acc2 @ [EventMetadata_fRun nt],
                    acc_station_id := acc_station_id acc2 @ [EventMetadata_fStnId nt],
                    acc_dtms := acc_dtms acc2 @ [EventHeader_fDTms nt]\<rparr>) = Inr acc'"
    using assms nt trg ts a2 by (simp add: begin_file_def Let_def)
  have "acc_posix_times acc' = acc_posix_times acc2"
    using begin_power_posix [OF a3] by simp
  also have "\<dots> = acc_posix_times acc @ [ts]"
    using begin_temperature_posix [OF a2] by simp
  also have "ts = event_seconds nf"
    using np_col0_Inr [OF ts] by (simp add: event_seconds_def nt)
  finally show ?thesis .
qed

lemma read_files_posix:
  "read_files mV rt rp acc nfs = Inr acc' \<Longrightarrow>
     acc_posix_times acc' = acc_posix_times acc @ map event_seconds nfs"
proof (induction nfs arbitrary: acc)
  case Nil
  then show ?case by simp
next
  case (Cons nf nfs)
  then obtain acc1 where a1: "begin_file mV rt rp acc nf = Inr acc1"
    and rest: "read_files mV rt rp acc1 nfs = Inr acc'"
    by (auto split: sum.splits)
  show ?case
    using Cons.IH [OF rest] begin_file_posix [OF a1] by simp
qed

lemma finish_head_posix:
  assumes "self_posix_time self = None"
    and "self_posix_time (fst (finish_head rp acc self)) = Some pt"
  shows "pt = concat (acc_posix_times acc)
       \<and> self_datetime (fst (finish_head rp acc self)) = Some (map Seconds pt)"
  using assms
  by (auto simp: finish_head_def finish_temperature_raises np_concatenate_def Let_def
      split: sum.splits if_splits)

text \<open>
  Claim C8 says that \<open>posixTime\<close> combines the seconds and the nanoseconds of the time
  record. Line 92 keeps column 0, the seconds: two files whose one event differs in the
  nanoseconds only, 0 and 999999999, leave the same \<open>posix_time\<close>.
\<close>

theorem posix_time_ignores_nanoseconds:
  "self_posix_time (fst (begin_method new_importer (1/1000) [file_at [5, 0]] False False))
     = Some [5]
   \<and> self_posix_time
       (fst (begin_method new_importer (1/1000) [file_at [5, 999999999]] False False))
     = Some [5]"
  by (simp add: begin_method_at_any)

text \<open>
  Claim C8 as amended: whenever \<open>begin\<close> sets \<open>posix_time\<close>, the entry of each event is
  the first element of its time record, the seconds, in the order of the files, and
  \<open>datetime\<close> holds these same seconds as times of second resolution.
\<close>

theorem posix_time_is_seconds_field:
  assumes "self_posix_time (fst (begin_method new_importer mV noise_files rt rp)) = Some pt"
  shows "pt = concat (map event_seconds noise_files)
       \<and> self_datetime (fst (begin_method new_importer mV noise_files rt rp))
           = Some (map Seconds pt)"
proof -
  have fresh: "self_posix_time new_importer = None"
    by (simp add: new_importer_def)
  obtain acc where acc: "read_files mV rt rp empty_accumulators noise_files = Inr acc"
    using assms fresh by (auto simp: begin_method_def split: sum.splits)
  have b: "begin_method new_importer mV noise_files rt rp = finish_head rp acc new_importer"
    by (simp add: begin_method_def acc)
  have "acc_posix_times acc = map event_seconds noise_files"
    using read_files_posix [OF acc] by (simp add: empty_accumulators_def)
  then show ?thesis
    using finish_head_posix [OF fresh, of rp acc pt] assms by (simp add: b)
qed

theorem posix_time_is_seconds_field_witness:
  "self_posix_time (fst (begin_method new_importer (1/1000) [file_at [5, 7]] False False))
     = Some [5]
   \<and> self_datetime (fst (begin_method new_importer (1/1000) [file_at [5, 7]] False False))
     = Some [Seconds 5]"
proof -
  have p: "self_posix_time
             (fst (begin_method new_importer (1/1000) [file_at [5, 7]] False False))
           = Some [5]"
    by (simp add: begin_method_at_any)
  show ?thesis
    using posix_time_is_seconds_field [OF p] p by simp
qed

section \<open>Properties of the interpolation\<close>














end
